theory Spec2Isabelle
  imports Complex_Main "HOL-Library.Word" "HOL-Library.Stream"
begin

unbundle bit_operations_syntax

section \<open>The AI detection service (ai-service/main.py)\<close>

text \<open>
  The service is a FastAPI skeleton with three routes: \<open>GET /health\<close>,
  \<open>POST /detect\<close> and \<open>POST /analyze-stream\<close>. The handlers read the clock
  (\<open>datetime.utcnow()\<close>), draw random bytes (\<open>uuid.uuid4()\<close>) and write to a
  structured logger; the module keeps no other state. These three effects are threaded
  through the handlers as an explicit world. The two HTTP middlewares (correlation id
  header, request log line) and the startup and shutdown hooks leave response bodies
  alone and are not part of the model.
\<close>

subsection \<open>Library values: datetime and UUID\<close>

text \<open>
  \<open>datetime.isoformat()\<close> of a naive datetime: \<open>YYYY-MM-DDTHH:MM:SS\<close>, followed by
  \<open>.ffffff\<close> when the microsecond field is not zero.
\<close>

record datetime =
  year :: nat
  month :: nat
  day :: nat
  hour :: nat
  minute :: nat
  second :: nat
  microsecond :: nat

definition digit_char :: "nat \<Rightarrow> char" where
  "digit_char d = ''0123456789abcdef'' ! d"

fun decimal :: "nat \<Rightarrow> string" where
  "decimal n = (if n < 10 then [digit_char n] else decimal (n div 10) @ [digit_char (n mod 10)])"

definition zero_pad :: "nat \<Rightarrow> nat \<Rightarrow> string" where
  "zero_pad k n = replicate (k - length (decimal n)) CHR ''0'' @ decimal n"

definition isoformat :: "datetime \<Rightarrow> string" where
  "isoformat dt =
     zero_pad 4 (year dt) @ ''-'' @ zero_pad 2 (month dt) @ ''-'' @ zero_pad 2 (day dt) @ ''T'' @
     zero_pad 2 (hour dt) @ '':'' @ zero_pad 2 (minute dt) @ '':'' @ zero_pad 2 (second dt) @
     (if microsecond dt = 0 then [] else ''.'' @ zero_pad 6 (microsecond dt))"

text \<open>
  \<open>uuid.uuid4()\<close> is \<open>UUID(bytes=os.urandom(16), version=4)\<close>: the 128 random bits
  with the variant bits set to RFC 4122 and the version nibble set to 4.
  \<open>str\<close> of a UUID prints the 32 hexadecimal digits in groups of 8-4-4-4-12.
\<close>

definition uuid4 :: "128 word \<Rightarrow> 128 word" where
  "uuid4 rb =
     (((rb AND NOT (push_bit 48 0xc000)) OR push_bit 48 0x8000)
        AND NOT (push_bit 64 0xf000)) OR push_bit 76 4"

definition hex32 :: "128 word \<Rightarrow> string" where
  "hex32 x = map (\<lambda>i. digit_char (unat (drop_bit (4 * (31 - i)) x AND 0xf))) [0..<32]"

definition str_uuid :: "128 word \<Rightarrow> string" where
  "str_uuid u =
     (let h = hex32 u in
      take 8 h @ ''-'' @ take 4 (drop 8 h) @ ''-'' @ take 4 (drop 12 h) @ ''-'' @
      take 4 (drop 16 h) @ ''-'' @ drop 20 h)"

subsection \<open>Models (pydantic classes)\<close>

datatype jval = JBool bool | JStr string | JNum real | JNull

record HealthResponse =
  status :: string
  timestamp :: string
  version :: string

record DetectionRequest =
  image_url :: "string option"
  image_base64 :: "string option"
  camera_id :: "string option"
  detection_types :: "string list"

record Detection =
  type :: string
  confidence :: real
  bbox :: "real list"
  metadata :: "(string \<times> jval) list"

record DetectionResponse =
  success :: bool
  detections :: "Detection list"
  processing_time_ms :: real
  frame_id :: "string option"

text \<open>
  Building a \<open>DetectionRequest\<close> from a request body: the three optional fields default
  to \<open>None\<close>, and an omitted \<open>detection_types\<close> takes the declared default list. The
  class declares no validator, so a given list is kept as it is.
\<close>

definition default_detection_types :: "string list" where
  "default_detection_types = [''person'', ''vehicle'', ''weapon'']"

definition new_DetectionRequest ::
    "string option \<Rightarrow> string option \<Rightarrow> string option \<Rightarrow> string list option \<Rightarrow> DetectionRequest" where
  "new_DetectionRequest url b64 cam types =
     \<lparr>image_url = url, image_base64 = b64, camera_id = cam,
      detection_types = (case types of None \<Rightarrow> default_detection_types | Some ts \<Rightarrow> ts)\<rparr>"

subsection \<open>The world of a handler: clock, entropy, log\<close>

datatype HTTPException = HTTPException nat string

datatype log_event =
  detection_requested "string option" "string list" bool bool
| stream_analysis_requested string string

record world =
  clock :: "datetime stream"
  entropy :: "128 word stream"
  log :: "log_event list"

subsection \<open>Routes\<close>

definition health_check :: "world \<Rightarrow> HealthResponse \<times> world" where
  "health_check w =
     (\<lparr>status = ''healthy'',
       timestamp = isoformat (shd (clock w)) @ ''Z'',
       version = ''0.1.0''\<rparr>,
      w\<lparr>clock := stl (clock w)\<rparr>)"

definition detect_objects ::
    "DetectionRequest \<Rightarrow> world \<Rightarrow> (HTTPException + DetectionResponse) \<times> world" where
  "detect_objects request w =
     (let w1 = w\<lparr>log := log w @
                  [detection_requested (camera_id request) (detection_types request)
                     (image_url request \<noteq> None) (image_base64 request \<noteq> None)]\<rparr>;
          fid = str_uuid (uuid4 (shd (entropy w1)));
          w2 = w1\<lparr>entropy := stl (entropy w1)\<rparr>
      in (Inr \<lparr>success = True, detections = [], processing_time_ms = 0, frame_id = Some fid\<rparr>,
          w2))"

definition analyze_stream ::
    "string \<Rightarrow> string \<Rightarrow> world \<Rightarrow> (HTTPException + (string \<times> jval) list) \<times> world" where
  "analyze_stream cam stream_url w =
     (let w1 = w\<lparr>log := log w @
                  [stream_analysis_requested cam
                     (if length stream_url > 50 then take 50 stream_url @ ''...''
                      else stream_url)]\<rparr>
      in (Inr [(''success'', JBool True),
               (''message'', JStr ''Stream analysis not implemented yet. Coming in Slice 12.''),
               (''camera_id'', JStr cam)],
          w1))"

subsection \<open>Dispatch\<close>

text \<open>
  The routing table of the application: one constructor per decorated route, and a server
  loop that answers a sequence of requests one after the other in the same world.
\<close>

datatype call = Health | Detect DetectionRequest | AnalyzeStream string string

datatype reply =
  HealthReply HealthResponse
| DetectReply "HTTPException + DetectionResponse"
| StreamReply "HTTPException + (string \<times> jval) list"

fun handle :: "call \<Rightarrow> world \<Rightarrow> reply \<times> world" where
  "handle Health w = (case health_check w of (r, w') \<Rightarrow> (HealthReply r, w'))"
| "handle (Detect request) w = (case detect_objects request w of (r, w') \<Rightarrow> (DetectReply r, w'))"
| "handle (AnalyzeStream cam stream_url) w =
     (case analyze_stream cam stream_url w of (r, w') \<Rightarrow> (StreamReply r, w'))"

fun serve :: "call list \<Rightarrow> world \<Rightarrow> reply list \<times> world" where
  "serve [] w = ([], w)"
| "serve (c # cs) w =
     (case handle c w of (r, w1) \<Rightarrow> (case serve cs w1 of (rs, w2) \<Rightarrow> (r # rs, w2)))"

text \<open>A reply with its fresh parts (the timestamp, the frame id) blanked out.\<close>

fun stable_part :: "reply \<Rightarrow> reply" where
  "stable_part (HealthReply r) = HealthReply (r\<lparr>timestamp := []\<rparr>)"
| "stable_part (DetectReply (Inl e)) = DetectReply (Inl e)"
| "stable_part (DetectReply (Inr r)) = DetectReply (Inr (r\<lparr>frame_id := None\<rparr>))"
| "stable_part (StreamReply r) = StreamReply r"

subsection \<open>Concrete inputs\<close>

text \<open>A base64-encoded PNG of one pixel, an idle world, and a burst of requests.\<close>

definition png_1x1 :: string where
  "png_1x1 =
     ''iVBORw0KGgoAAAANSUhEUgAAAAEAAAABCAYAAAAfFcSJAAAADUlEQVR42mNkYPhfDwAChwGA60e6kgAAAABJRU5ErkJggg==''"

definition idle_world :: world where
  "idle_world =
     \<lparr>clock = sconst \<lparr>year = 2024, month = 3, day = 7, hour = 9, minute = 5, second = 0,
                       microsecond = 0\<rparr>,
      entropy = sconst 0,
      log = []\<rparr>"

definition person_request :: DetectionRequest where
  "person_request = new_DetectionRequest None (Some png_1x1) None (Some [''person''])"

definition burst :: "call list" where
  "burst =
     [Detect person_request, Detect person_request, Detect person_request,
      AnalyzeStream ''cam-1'' ''rtsp://10.0.0.5/live'',
      AnalyzeStream ''cam-2'' ''rtsp://10.0.0.6/live'',
      Detect person_request, Detect person_request, Detect person_request]"

section \<open>Helper lemmas\<close>

lemma length_hex32: "length (hex32 x) = 32"
  by (simp add: hex32_def)

lemma length_str_uuid: "length (str_uuid u) = 36"
  by (simp add: str_uuid_def Let_def length_hex32)

lemma str_uuid_nonempty: "str_uuid u \<noteq> []"
  using length_str_uuid [of u] by auto

lemma fst_detect_objects:
  "fst (detect_objects request w) =
     Inr \<lparr>success = True, detections = [], processing_time_ms = 0,
          frame_id = Some (str_uuid (uuid4 (shd (entropy w))))\<rparr>"
  by (simp add: detect_objects_def Let_def)

lemma fst_analyze_stream:
  "fst (analyze_stream cam stream_url w) =
     Inr [(''success'', JBool True),
          (''message'', JStr ''Stream analysis not implemented yet. Coming in Slice 12.''),
          (''camera_id'', JStr cam)]"
  by (simp add: analyze_stream_def Let_def)

lemma fst_health_check:
  "fst (health_check w) =
     \<lparr>status = ''healthy'', timestamp = isoformat (shd (clock w)) @ ''Z'', version = ''0.1.0''\<rparr>"
  by (simp add: health_check_def)

lemma stable_part_handle:
  "stable_part (fst (handle c w)) = stable_part (fst (handle c w'))"
proof (cases c)
  case Health
  then show ?thesis by (simp add: health_check_def)
next
  case (Detect request)
  then show ?thesis by (simp add: detect_objects_def Let_def)
next
  case (AnalyzeStream cam stream_url)
  then show ?thesis by (simp add: analyze_stream_def Let_def)
qed

section \<open>Claims\<close>

text \<open>
  Claim C1. A single-frame detection request that carries an inline image (for example a
  one-pixel image with detection types \<open>["person"]\<close>) is answered with success = true, an
  empty list of detections, a processing time that is at least 0 and a non-empty frame id.
\<close>

theorem detect_inline_image_no_match:
  assumes "image_base64 request = Some img"
  shows "\<exists>r fid. fst (detect_objects request w) = Inr r \<and> success r \<and> detections r = [] \<and>
           0 \<le> processing_time_ms r \<and> frame_id r = Some fid \<and> fid \<noteq> []"
  by (simp add: fst_detect_objects str_uuid_nonempty)

theorem detect_inline_image_no_match_witness:
  "image_base64 person_request = Some png_1x1 \<and> detection_types person_request = [''person''] \<and>
   (\<exists>r fid. fst (detect_objects person_request idle_world) = Inr r \<and> success r \<and>
      detections r = [] \<and> 0 \<le> processing_time_ms r \<and> frame_id r = Some fid \<and> fid \<noteq> [])"
proof -
  have h: "image_base64 person_request = Some png_1x1"
    by (simp add: person_request_def new_DetectionRequest_def)
  have t: "detection_types person_request = [''person'']"
    by (simp add: person_request_def new_DetectionRequest_def)
  from detect_inline_image_no_match [OF h, of idle_world] h t show ?thesis by blast
qed

text \<open>
  Claim C2 says that a second start-stream request for a camera id with an active session
  fails with a conflict error. The handler keeps no sessions: two back-to-back requests for
  \<open>cam-1\<close> are both answered with the same success dictionary.
\<close>

theorem second_start_counterexample:
  "fst (analyze_stream ''cam-1'' ''rtsp://10.0.0.5/live'' idle_world) =
     Inr [(''success'', JBool True),
          (''message'', JStr ''Stream analysis not implemented yet. Coming in Slice 12.''),
          (''camera_id'', JStr ''cam-1'')] \<and>
   fst (analyze_stream ''cam-1'' ''rtsp://10.0.0.5/live''
          (snd (analyze_stream ''cam-1'' ''rtsp://10.0.0.5/live'' idle_world))) =
     Inr [(''success'', JBool True),
          (''message'', JStr ''Stream analysis not implemented yet. Coming in Slice 12.''),
          (''camera_id'', JStr ''cam-1'')] \<and>
   \<not> isl (fst (analyze_stream ''cam-1'' ''rtsp://10.0.0.5/live''
          (snd (analyze_stream ''cam-1'' ''rtsp://10.0.0.5/live'' idle_world))))"
  by (simp add: analyze_stream_def Let_def idle_world_def)

text \<open>
  Claim C2, amended. For every camera id, a second start-stream request issued right after
  a first one for the same camera id is answered exactly as the first: it is not an error,
  its success field is true and it echoes the camera id.
\<close>

theorem second_start_succeeds:
  "fst (analyze_stream cam url2 (snd (analyze_stream cam url1 w))) = fst (analyze_stream cam url1 w) \<and>
   \<not> isl (fst (analyze_stream cam url2 (snd (analyze_stream cam url1 w)))) \<and>
   map_of (projr (fst (analyze_stream cam url2 (snd (analyze_stream cam url1 w))))) ''success''
     = Some (JBool True) \<and>
   map_of (projr (fst (analyze_stream cam url2 (snd (analyze_stream cam url1 w))))) ''camera_id''
     = Some (JStr cam)"
  by (simp add: fst_analyze_stream)

text \<open>
  Claim C4 says that the status of the health record reflects the health of the pipeline
  and turns to degraded under persistent saturation. After a burst of detection and
  stream requests the status is still \<open>healthy\<close>, the same as in the idle world.
\<close>

theorem health_under_load_counterexample:
  "status (fst (health_check (snd (serve burst idle_world)))) = ''healthy'' \<and>
   status (fst (health_check (snd (serve burst idle_world)))) \<noteq> ''degraded'' \<and>
   status (fst (health_check (snd (serve burst idle_world)))) = status (fst (health_check idle_world))"
  by (simp add: fst_health_check)

text \<open>
  Claim C4, amended. The health operation returns a record with status, timestamp and
  version: the status is always \<open>healthy\<close>, also after any sequence of earlier requests,
  the version is \<open>0.1.0\<close> and the timestamp is the current UTC time in ISO format followed
  by \<open>Z\<close>.
\<close>

theorem health_reports_liveness:
  "status (fst (health_check w)) = ''healthy'' \<and>
   version (fst (health_check w)) = ''0.1.0'' \<and>
   timestamp (fst (health_check w)) = isoformat (shd (clock w)) @ ''Z'' \<and>
   status (fst (health_check (snd (serve cs w)))) = ''healthy''"
  by (simp add: fst_health_check)

text \<open>
  Claim C7 says that the detect operation never accepts a request whose list of detection
  types is empty or has duplicates. A request with the empty list and a request with
  \<open>["person", "person"]\<close> are both built as given and answered with success.
\<close>

theorem empty_and_duplicate_labels_counterexample:
  "detection_types (new_DetectionRequest None (Some png_1x1) None (Some [])) = [] \<and>
   \<not> isl (fst (detect_objects (new_DetectionRequest None (Some png_1x1) None (Some [])) idle_world)) \<and>
   success (projr (fst (detect_objects
      (new_DetectionRequest None (Some png_1x1) None (Some [])) idle_world))) \<and>
   \<not> distinct (detection_types
      (new_DetectionRequest None (Some png_1x1) None (Some [''person'', ''person'']))) \<and>
   \<not> isl (fst (detect_objects
      (new_DetectionRequest None (Some png_1x1) None (Some [''person'', ''person''])) idle_world)) \<and>
   success (projr (fst (detect_objects
      (new_DetectionRequest None (Some png_1x1) None (Some [''person'', ''person''])) idle_world)))"
  by (simp add: fst_detect_objects new_DetectionRequest_def)

text \<open>
  Claim C7, amended. A detection request carries a list of object-class labels: the list
  \<open>["person", "vehicle", "weapon"]\<close> when the request gives none, and otherwise the given
  list unchanged. The detect operation accepts the request whatever the list is.
\<close>

theorem detection_types_unvalidated:
  "detection_types (new_DetectionRequest url b64 cam None) = [''person'', ''vehicle'', ''weapon''] \<and>
   detection_types (new_DetectionRequest url b64 cam (Some ts)) = ts \<and>
   \<not> isl (fst (detect_objects (new_DetectionRequest url b64 cam types) w)) \<and>
   success (projr (fst (detect_objects (new_DetectionRequest url b64 cam types) w)))"
  by (simp add: fst_detect_objects new_DetectionRequest_def default_detection_types_def)

text \<open>
  Claim C8. For every detection request, also one with neither an image URL nor inline
  image data, the detect operation raises no error and returns success = true, no
  detections, a processing time of exactly 0 and a frame id that is present and non-empty
  (the 36 characters of a version-4 UUID).
\<close>

theorem detect_always_placeholder:
  "fst (detect_objects request w) =
     Inr \<lparr>success = True, detections = [], processing_time_ms = 0,
          frame_id = Some (str_uuid (uuid4 (shd (entropy w))))\<rparr> \<and>
   length (str_uuid (uuid4 (shd (entropy w)))) = 36 \<and>
   str_uuid (uuid4 (shd (entropy w))) \<noteq> []"
  by (simp add: fst_detect_objects length_str_uuid str_uuid_nonempty)

text \<open>
  Claim C9. For every camera id and stream URL, the analyze-stream operation returns
  success = true, the fixed message and the camera id unchanged, and never an error.
\<close>

theorem analyze_stream_always_placeholder:
  "fst (analyze_stream cam stream_url w) =
     Inr [(''success'', JBool True),
          (''message'', JStr ''Stream analysis not implemented yet. Coming in Slice 12.''),
          (''camera_id'', JStr cam)] \<and>
   (\<forall>e. fst (analyze_stream cam stream_url w) \<noteq> Inl e)"
  by (simp add: fst_analyze_stream)

text \<open>
  Claim C10. Apart from the timestamp and the frame id, the reply to a call does not
  depend on the world it is made in: it is the same in any two worlds, the same after any
  sequence of earlier calls, and the same when the call is repeated.
\<close>

theorem replies_independent_of_history:
  "stable_part (fst (handle c w)) = stable_part (fst (handle c w')) \<and>
   stable_part (fst (handle c (snd (serve cs w)))) = stable_part (fst (handle c w)) \<and>
   stable_part (fst (handle c (snd (handle c w)))) = stable_part (fst (handle c w))"
  using stable_part_handle by blast

end
